theory Spec2Isabelle
  imports Complex_Main "HOL-Library.Multiset" "HOL-Library.Sublist"
begin

section \<open>Data model (models.py, config.py)\<close>

text \<open>
  Python \<open>str\<close> values are modelled as \<^typ>\<open>string\<close>, Python \<open>int\<close> as \<^typ>\<open>int\<close>,
  Python \<open>float\<close> as exact rationals (\<^typ>\<open>rat\<close>), and a naive \<open>datetime\<close> as the
  number of microseconds since a fixed origin (\<^typ>\<open>int\<close>), so that a \<open>timedelta\<close> is
  the difference of two such numbers.
\<close>

type_synonym datetime = int

record Article =
  url :: string
  title :: string
  content :: string
  published_at :: datetime
  topic :: string
  source :: string

text \<open>\<open>Article.__eq__\<close>: two articles are equal when their urls are.\<close>

definition article_eq :: "Article \<Rightarrow> Article \<Rightarrow> bool" where
  "article_eq a b = (url a = url b)"

record RankedArticle =
  article :: Article
  quality_score :: rat

record SummarizedArticle = Article +
  summary_bullets :: "string list"
  audience_level :: string
  summarization_failed :: bool

record TopicConfig =
  tc_audience_level :: string
  include_context :: bool
  context_text :: "string option"
  min_quality_score :: rat
  max_articles_per_day :: int
  trusted_sources :: "string list"

record ProviderConfig =
  provider_id :: string
  provider_type :: string
  api_key :: string
  model :: string
  enabled :: bool
  priority :: int
  base_url :: "string option"
  timeout :: int
  max_tokens :: int
  temperature :: rat
  input_cost_per_1M_tokens :: rat
  output_cost_per_1M_tokens :: rat

section \<open>Provider metrics (providers/metrics.py)\<close>

record ProviderMetrics =
  pm_provider_id :: string
  total_requests :: int
  successful_requests :: int
  failed_requests :: int
  total_input_tokens :: int
  total_output_tokens :: int
  total_latency_seconds :: rat
  consecutive_failures :: int

text \<open>The dataclass defaults: every counter starts at 0.\<close>

definition new_metrics :: "string \<Rightarrow> ProviderMetrics" where
  "new_metrics pid =
     \<lparr>pm_provider_id = pid, total_requests = 0, successful_requests = 0,
      failed_requests = 0, total_input_tokens = 0, total_output_tokens = 0,
      total_latency_seconds = 0, consecutive_failures = 0\<rparr>"

definition record_success :: "rat \<Rightarrow> int \<Rightarrow> int \<Rightarrow> ProviderMetrics \<Rightarrow> ProviderMetrics" where
  "record_success latency input_tokens output_tokens m =
     m\<lparr>total_requests := total_requests m + 1,
       successful_requests := successful_requests m + 1,
       total_input_tokens := total_input_tokens m + input_tokens,
       total_output_tokens := total_output_tokens m + output_tokens,
       total_latency_seconds := total_latency_seconds m + latency,
       consecutive_failures := 0\<rparr>"

definition record_failure :: "string \<Rightarrow> ProviderMetrics \<Rightarrow> ProviderMetrics" where
  "record_failure err m =
     m\<lparr>total_requests := total_requests m + 1,
       failed_requests := failed_requests m + 1,
       consecutive_failures := consecutive_failures m + 1\<rparr>"

text \<open>A call on a metrics object, and a sequence of calls applied in order.\<close>

datatype metrics_call = RecordSuccess rat int int | RecordFailure string

fun apply_call :: "ProviderMetrics \<Rightarrow> metrics_call \<Rightarrow> ProviderMetrics" where
  "apply_call m (RecordSuccess latency input_tokens output_tokens) =
     record_success latency input_tokens output_tokens m"
| "apply_call m (RecordFailure err) = record_failure err m"

definition run_calls :: "ProviderMetrics \<Rightarrow> metrics_call list \<Rightarrow> ProviderMetrics" where
  "run_calls m cs = foldl apply_call m cs"

fun is_failure :: "metrics_call \<Rightarrow> bool" where
  "is_failure (RecordFailure _) = True"
| "is_failure (RecordSuccess _ _ _) = False"

text \<open>The number of \<open>record_failure\<close> calls after the most recent \<open>record_success\<close>.\<close>

definition failures_since_success :: "metrics_call list \<Rightarrow> nat" where
  "failures_since_success cs = length (takeWhile is_failure (rev cs))"

section \<open>Deduplicator (deduplicator.py)\<close>

record ArticleHistoryEntry =
  he_url :: string
  he_title :: string
  sent_at :: datetime

text \<open>
  The state of a \<open>Deduplicator\<close>: the history map loaded at construction (url to
  entry) and the similarity threshold.
\<close>

record Deduplicator =
  history :: "string \<rightharpoonup> ArticleHistoryEntry"
  similarity_threshold :: int

definition is_sent :: "(string \<rightharpoonup> ArticleHistoryEntry) \<Rightarrow> string \<Rightarrow> bool" where
  "is_sent h u = (u \<in> dom h)"

text \<open>
  \<open>_deduplicate_by_url\<close>: one loop over the articles, carrying the set \<open>seen_urls\<close> and
  the list \<open>unique_articles\<close>.
\<close>

fun url_step :: "string set \<times> Article list \<Rightarrow> Article \<Rightarrow> string set \<times> Article list" where
  "url_step (seen_urls, unique_articles) a =
     (if url a \<notin> seen_urls then (insert (url a) seen_urls, unique_articles @ [a])
      else (seen_urls, unique_articles))"

definition deduplicate_by_url :: "Article list \<Rightarrow> Article list" where
  "deduplicate_by_url articles = snd (foldl url_step ({}, []) articles)"

text \<open>\<open>str.lower\<close>, on the ASCII letters.\<close>

definition char_lower :: "char \<Rightarrow> char" where
  "char_lower c =
     (if 65 \<le> (of_char c :: nat) \<and> (of_char c :: nat) \<le> 90
      then char_of ((of_char c :: nat) + 32) else c)"

definition lower :: "string \<Rightarrow> string" where
  "lower s = map char_lower s"

text \<open>
  \<open>fuzz.ratio\<close> belongs to the third-party package fuzzywuzzy, so the title pass takes
  it as a parameter \<open>ratio\<close> (two strings to a score from 0 to 100).

  The inner loop of \<open>_deduplicate_by_title\<close> stops at the first accepted article whose
  lower-cased title is more similar to the candidate's than the threshold.
\<close>

fun find_duplicate ::
  "(string \<Rightarrow> string \<Rightarrow> int) \<Rightarrow> int \<Rightarrow> Article \<Rightarrow> Article list \<Rightarrow> Article option" where
  "find_duplicate ratio thr a [] = None"
| "find_duplicate ratio thr a (u # us) =
     (if ratio (lower (title a)) (lower (title u)) > thr then Some u
      else find_duplicate ratio thr a us)"

text \<open>
  \<open>list.remove(x)\<close> deletes the first element equal to \<open>x\<close>, and articles compare by
  url. Python raises \<open>ValueError\<close> when there is none; the title pass only removes an
  article it has just read from the same list (lemma \<open>find_duplicate_in_list\<close> below),
  so that branch is never taken.
\<close>

fun list_remove :: "Article \<Rightarrow> Article list \<Rightarrow> Article list" where
  "list_remove x [] = []"
| "list_remove x (y # ys) = (if article_eq y x then ys else y # list_remove x ys)"

definition title_step ::
  "(string \<Rightarrow> string \<Rightarrow> int) \<Rightarrow> int \<Rightarrow> Article list \<Rightarrow> Article \<Rightarrow> Article list" where
  "title_step ratio thr unique_articles a =
     (case find_duplicate ratio thr a unique_articles of
        None \<Rightarrow> unique_articles @ [a]
      | Some unique_article \<Rightarrow>
          if published_at a < published_at unique_article
          then list_remove unique_article unique_articles @ [a]
          else unique_articles)"

definition deduplicate_by_title ::
  "(string \<Rightarrow> string \<Rightarrow> int) \<Rightarrow> Deduplicator \<Rightarrow> Article list \<Rightarrow> Article list" where
  "deduplicate_by_title ratio d articles =
     foldl (title_step ratio (similarity_threshold d)) [] articles"

definition filter_sent :: "Deduplicator \<Rightarrow> Article list \<Rightarrow> Article list" where
  "filter_sent d articles = filter (\<lambda>a. \<not> is_sent (history d) (url a)) articles"

definition deduplicate ::
  "(string \<Rightarrow> string \<Rightarrow> int) \<Rightarrow> Deduplicator \<Rightarrow> Article list \<Rightarrow> Article list" where
  "deduplicate ratio d articles =
     filter_sent d (deduplicate_by_title ratio d (deduplicate_by_url articles))"

text \<open>
  The articles whose url is not in \<open>seen\<close> and has not occurred earlier in the list:
  the closed form of the loop of \<open>_deduplicate_by_url\<close>.
\<close>

fun first_seen :: "string set \<Rightarrow> Article list \<Rightarrow> Article list" where
  "first_seen seen [] = []"
| "first_seen seen (a # as) =
     (if url a \<in> seen then first_seen seen as else a # first_seen (insert (url a) seen) as)"

text \<open>
  A concrete similarity score, used only to evaluate the deduplicator on explicit inputs.
  fuzzywuzzy returns 100 for equal strings, 0 when one string is empty, and otherwise
  \<open>int(round(100 * 2 * M / T))\<close>, where \<open>T\<close> is the sum of the two lengths and \<open>M\<close> the
  number of matched characters; with the python-Levenshtein backend \<open>M\<close> is the length
  of a longest common subsequence. Python's \<open>round\<close> rounds a half to the even
  neighbour.

  The length of a longest common subsequence is computed row by row: \<open>lcs_row x ys prev
  0 0\<close> turns the row for a prefix of the first string into the row for that prefix
  extended by \<open>x\<close>, where entry \<open>j\<close> of a row is the length for the first \<open>j + 1\<close>
  characters of \<open>ys\<close> (\<open>up\<close> is the entry above, \<open>diag\<close> the one above to the left,
  \<open>left\<close> the one just computed).
\<close>

fun lcs_row :: "char \<Rightarrow> string \<Rightarrow> nat list \<Rightarrow> nat \<Rightarrow> nat \<Rightarrow> nat list" where
  "lcs_row x (y # ys) (up # prev) diag left =
     (let v = (if x = y then diag + 1 else max up left) in v # lcs_row x ys prev up v)"
| "lcs_row x ys prev diag left = []"

definition lcs_length :: "string \<Rightarrow> string \<Rightarrow> nat" where
  "lcs_length xs ys =
     last (0 # foldl (\<lambda>row x. lcs_row x ys row 0 0) (replicate (length ys) 0) xs)"

definition py_round :: "rat \<Rightarrow> int" where
  "py_round x =
     (let f = \<lfloor>x\<rfloor>; r = x - of_int f
      in if r < 1 / 2 then f
         else if 1 / 2 < r then f + 1
         else if even f then f else f + 1)"

definition fuzz_ratio :: "string \<Rightarrow> string \<Rightarrow> int" where
  "fuzz_ratio s1 s2 =
     (if s1 = s2 then 100
      else if s1 = [] \<or> s2 = [] then 0
      else py_round (100 * (2 * of_nat (lcs_length s1 s2) / of_nat (length s1 + length s2))))"

text \<open>
  Without python-Levenshtein, fuzzywuzzy computes the ratio with \<open>difflib\<close>'s
  \<open>SequenceMatcher\<close>: \<open>M\<close> is then the total size of the matching blocks. The first
  block is the longest common contiguous block, the one starting earliest in the first
  string and, among those, earliest in the second; the others are found in the same way
  to its left and to its right. (The junk heuristic of \<open>SequenceMatcher\<close> only applies
  to strings of 200 characters or more.) This ratio depends on the order of its
  arguments.
\<close>

fun common_prefix_length :: "string \<Rightarrow> string \<Rightarrow> nat" where
  "common_prefix_length (x # xs) (y # ys) =
     (if x = y then Suc (common_prefix_length xs ys) else 0)"
| "common_prefix_length xs ys = 0"

text \<open>
  The longest block that starts at the head of \<open>xs\<close>, with its start in \<open>b\<close>; \<open>j\<close> is
  the position of the part of \<open>b\<close> that is still to scan.
\<close>

fun best_in_b :: "string \<Rightarrow> string \<Rightarrow> nat \<Rightarrow> nat \<times> nat" where
  "best_in_b xs [] j = (0, j)"
| "best_in_b xs (y # ys) j =
     (let k = common_prefix_length xs (y # ys); (k', j') = best_in_b xs ys (Suc j)
      in if k < k' then (k', j') else (k, j))"

text \<open>\<open>find_longest_match\<close>: size and the two start positions of the longest block.\<close>

fun find_longest_match :: "string \<Rightarrow> string \<Rightarrow> nat \<Rightarrow> nat \<times> nat \<times> nat" where
  "find_longest_match [] b i = (0, i, 0)"
| "find_longest_match (x # xs) b i =
     (let (k, j) = best_in_b (x # xs) b 0; (k', i', j') = find_longest_match xs b (Suc i)
      in if k < k' then (k', i', j') else (k, i, j))"






text \<open>Concrete articles and deduplicators for the evaluations below.\<close>

definition mk_article :: "string \<Rightarrow> string \<Rightarrow> datetime \<Rightarrow> Article" where
  "mk_article u t p =
     \<lparr>url = u, title = t, content = ''text'', published_at = p, topic = ''ai'',
      source = ''feed''\<rparr>"

definition no_history :: Deduplicator where
  "no_history = \<lparr>history = Map.empty, similarity_threshold = 80\<rparr>"

definition sent_before :: Deduplicator where
  "sent_before =
     \<lparr>history = [''https://a.example/1'' \<mapsto>
         \<lparr>he_url = ''https://a.example/1'', he_title = ''GPT-5 out'', sent_at = 0\<rparr>],
      similarity_threshold = 80\<rparr>"

section \<open>Provider selector (providers/selector.py)\<close>

text \<open>\<open>ProviderConfig.estimated_cost_per_request\<close> with its default token counts.\<close>

definition estimated_cost_per_request :: "ProviderConfig \<Rightarrow> rat \<Rightarrow> rat \<Rightarrow> rat" where
  "estimated_cost_per_request c avg_input_tokens avg_output_tokens =
     (let input_cost = (avg_input_tokens / 1000000) * input_cost_per_1M_tokens c;
          output_cost = (avg_output_tokens / 1000000) * output_cost_per_1M_tokens c
      in input_cost + output_cost)"

text \<open>
  \<open>list.sort(key=...)\<close> is a stable ascending sort, as is \<^const>\<open>sort_key\<close> (insertion
  sort that puts an element before the later elements with the same key).
\<close>

definition build_provider_order :: "string \<Rightarrow> ProviderConfig list \<Rightarrow> string list" where
  "build_provider_order strategy configs =
     (let enabled_configs = filter enabled configs;
          enabled_configs =
            (if strategy = ''priority'' then sort_key priority enabled_configs
             else if strategy = ''cost''
               then sort_key (\<lambda>c. estimated_cost_per_request c 1500 200) enabled_configs
             else if strategy = ''performance'' then sort_key priority enabled_configs
             else sort_key priority enabled_configs)
      in map provider_id enabled_configs)"

record ProviderSelector =
  strategy :: string
  provider_order :: "string list"

definition new_selector :: "ProviderConfig list \<Rightarrow> string \<Rightarrow> ProviderSelector" where
  "new_selector provider_configs strat =
     \<lparr>strategy = strat, provider_order = build_provider_order strat provider_configs\<rparr>"

definition get_provider_chain :: "ProviderSelector \<Rightarrow> string list" where
  "get_provider_chain sel = provider_order sel"

text \<open>A provider pool for the evaluations below.\<close>

definition mk_provider :: "string \<Rightarrow> bool \<Rightarrow> int \<Rightarrow> ProviderConfig" where
  "mk_provider pid en prio =
     \<lparr>provider_id = pid, provider_type = ''anthropic'', api_key = ''key'', model = ''m'',
      enabled = en, priority = prio, base_url = None, timeout = 30, max_tokens = 500,
      temperature = 3 / 10, input_cost_per_1M_tokens = 3, output_cost_per_1M_tokens = 15\<rparr>"

section \<open>Multi-provider summarizer (providers/multi\_provider\_summarizer.py)\<close>

text \<open>
  What one call of \<open>provider.summarize_async(article, prompt, max_tokens, temperature)\<close>
  does: it raises, or it returns the bullets and the usage dictionary. The providers
  talk to remote services, so a provider is a parameter of the model: a function
  from the arguments of the call to its outcome.
\<close>

datatype outcome = Raises string | Returns "string list" "string \<rightharpoonup> int"

type_synonym provider = "Article \<Rightarrow> string \<Rightarrow> int \<Rightarrow> rat \<Rightarrow> outcome"

datatype error = ValueError string

record MultiProviderSummarizer =
  registry :: "string \<rightharpoonup> provider"
  selector :: ProviderSelector
  prompts :: "string \<rightharpoonup> string"
  max_tokens_per_summary :: int
  summarization_temperature :: rat
  run_input_tokens :: int
  run_output_tokens :: int

text \<open>\<open>ProviderRegistry.get_provider\<close>: raises \<open>ValueError\<close> for an unknown id.\<close>

definition get_provider :: "(string \<rightharpoonup> provider) \<Rightarrow> string \<Rightarrow> error + provider" where
  "get_provider providers pid =
     (case providers pid of
        None \<Rightarrow> Inl (ValueError (''Provider not found: '' @ pid))
      | Some p \<Rightarrow> Inr p)"

text \<open>\<open>SummarizedArticle.from_article\<close>; \<open>summary_bullets or []\<close> is the list itself.\<close>

definition from_article :: "Article \<Rightarrow> string list \<Rightarrow> string \<Rightarrow> bool \<Rightarrow> SummarizedArticle" where
  "from_article a bullets lvl failed =
     \<lparr>url = url a, title = title a, content = content a, published_at = published_at a,
      topic = topic a, source = source a,
      summary_bullets = (if bullets = [] then [] else bullets),
      audience_level = lvl, summarization_failed = failed\<rparr>"

text \<open>
  \<open>_create_prompt\<close>. \<open>str.format\<close> is the parameter \<open>fmt\<close> (template, topic, title,
  content), with \<open>None\<close> when it raises; a missing \<open>'beginner'\<close> key raises as well.
  The result \<open>None\<close> stands for an exception, which the caller catches.
\<close>

definition create_prompt ::
  "(string \<Rightarrow> string \<Rightarrow> string \<Rightarrow> string \<Rightarrow> string option) \<Rightarrow> (string \<rightharpoonup> string)
     \<Rightarrow> Article \<Rightarrow> string \<Rightarrow> string \<Rightarrow> string option" where
  "create_prompt fmt templates a lvl tp =
     (let text = (if length (content a) > 3000 then take 3000 (content a) else content a)
      in case templates ''beginner'' of
           None \<Rightarrow> None
         | Some fallback \<Rightarrow>
             fmt (case templates lvl of None \<Rightarrow> fallback | Some t \<Rightarrow> t) tp (title a) text)"

text \<open>\<open>usage.get(key, 0)\<close>.\<close>

definition usage_get :: "(string \<rightharpoonup> int) \<Rightarrow> string \<Rightarrow> int" where
  "usage_get usage k = (case usage k of None \<Rightarrow> 0 | Some n \<Rightarrow> n)"

text \<open>
  The loop of \<open>_summarize_article_with_fallback\<close> over the provider chain. The state
  that it changes is the summarizer's pair of token counters. \<open>get_provider\<close> stands
  outside the \<open>try\<close>, so its error leaves the function; everything raised inside the
  \<open>try\<close> moves on to the next provider.
\<close>

fun fallback_loop ::
  "(string \<Rightarrow> string \<Rightarrow> string \<Rightarrow> string \<Rightarrow> string option) \<Rightarrow> Article \<Rightarrow> string \<Rightarrow> string
     \<Rightarrow> string list \<Rightarrow> MultiProviderSummarizer
     \<Rightarrow> error + (SummarizedArticle \<times> MultiProviderSummarizer)" where
  "fallback_loop fmt a lvl tp [] s = Inr (from_article a [] lvl True, s)"
| "fallback_loop fmt a lvl tp (pid # rest) s =
     (case get_provider (registry s) pid of
        Inl e \<Rightarrow> Inl e
      | Inr p \<Rightarrow>
          (case create_prompt fmt (prompts s) a lvl tp of
             None \<Rightarrow> fallback_loop fmt a lvl tp rest s
           | Some prompt \<Rightarrow>
               (case p a prompt (max_tokens_per_summary s) (summarization_temperature s) of
                  Raises e \<Rightarrow> fallback_loop fmt a lvl tp rest s
                | Returns bullets usage \<Rightarrow>
                    (let s' = s\<lparr>run_input_tokens :=
                                   run_input_tokens s + usage_get usage ''input_tokens'',
                                 run_output_tokens :=
                                   run_output_tokens s + usage_get usage ''output_tokens''\<rparr>
                     in if length bullets < 3 then fallback_loop fmt a lvl tp rest s'
                        else Inr (from_article a (take 5 bullets) lvl False, s')))))"

definition summarize_article_with_fallback ::
  "(string \<Rightarrow> string \<Rightarrow> string \<Rightarrow> string \<Rightarrow> string option) \<Rightarrow> MultiProviderSummarizer \<Rightarrow> Article
     \<Rightarrow> string \<Rightarrow> string \<Rightarrow> error + (SummarizedArticle \<times> MultiProviderSummarizer)" where
  "summarize_article_with_fallback fmt s a lvl tp =
     fallback_loop fmt a lvl tp (get_provider_chain (selector s)) s"

text \<open>
  A provider call fails for the chain walk when it raises or returns fewer than three
  bullets.
\<close>

fun call_fails :: "outcome \<Rightarrow> bool" where
  "call_fails (Raises e) = True"
| "call_fails (Returns bullets usage) = (length bullets < 3)"

text \<open>A summarizer with two providers, for the evaluations below.\<close>

definition simple_fmt :: "string \<Rightarrow> string \<Rightarrow> string \<Rightarrow> string \<Rightarrow> string option" where
  "simple_fmt template tp ttl text = Some (template @ tp @ ttl @ text)"

definition down_provider :: provider where
  "down_provider a prompt mt temp = Raises ''rate limit''"

definition short_provider :: provider where
  "short_provider a prompt mt temp =
     Returns [''only one bullet here''] [''input_tokens'' \<mapsto> 10, ''output_tokens'' \<mapsto> 5]"

definition long_provider :: provider where
  "long_provider a prompt mt temp =
     Returns [''bullet one'', ''bullet two'', ''bullet three'', ''bullet four'',
              ''bullet five'', ''bullet six'']
       [''input_tokens'' \<mapsto> 100, ''output_tokens'' \<mapsto> 50]"

definition mk_summarizer :: "(string \<rightharpoonup> provider) \<Rightarrow> string list \<Rightarrow> MultiProviderSummarizer" where
  "mk_summarizer reg chain =
     \<lparr>registry = reg,
      selector = \<lparr>strategy = ''priority'', provider_order = chain\<rparr>,
      prompts = [''beginner'' \<mapsto> ''Summarize: '', ''cs_student'' \<mapsto> ''Summarize in depth: ''],
      max_tokens_per_summary = 500, summarization_temperature = 3 / 10,
      run_input_tokens = 0, run_output_tokens = 0\<rparr>"

section \<open>Article ranker (processing/ranker.py)\<close>

text \<open>The scoring weights set in \<open>ArticleRanker.__init__\<close>.\<close>

definition CONTENT_WEIGHT :: rat where "CONTENT_WEIGHT = 4 / 10"
definition RECENCY_WEIGHT :: rat where "RECENCY_WEIGHT = 3 / 10"
definition SOURCE_WEIGHT :: rat where "SOURCE_WEIGHT = 3 / 10"

text \<open>\<open>timedelta(hours=n)\<close>, in microseconds.\<close>

definition hours :: "int \<Rightarrow> int" where
  "hours n = n * 3600000000"

definition score_content_depth :: "Article \<Rightarrow> rat" where
  "score_content_depth a =
     (let content_length = int (length (content a))
      in if content_length < 200 then of_int content_length / 400
         else if content_length < 500 then 1 / 2 + of_int (content_length - 200) / 1000
         else (let extra_length = min (content_length - 500) 1000
               in 8 / 10 + of_int extra_length / 5000))"

text \<open>
  \<open>_score_recency\<close> reads the clock (\<open>datetime.now()\<close>); the reading is the parameter
  \<open>now\<close>.
\<close>

definition score_recency :: "datetime \<Rightarrow> Article \<Rightarrow> rat" where
  "score_recency now a =
     (let age = now - published_at a
      in if age < hours 24 then 1
         else if age < hours 48 then 1 / 2
         else if age < hours 72 then 2 / 10
         else 0)"

text \<open>\<open>sub in s\<close> on strings: \<open>sub\<close> occurs in \<open>s\<close> as a contiguous block.\<close>

fun str_in :: "string \<Rightarrow> string \<Rightarrow> bool" where
  "str_in sub [] = (sub = [])"
| "str_in sub (c # cs) = (prefix sub (c # cs) \<or> str_in sub cs)"

definition score_source_trust :: "(string \<rightharpoonup> TopicConfig) \<Rightarrow> Article \<Rightarrow> rat" where
  "score_source_trust topics a =
     (case topics (topic a) of
        None \<Rightarrow> 1 / 2
      | Some topic_config \<Rightarrow>
          if trusted_sources topic_config = [] then 1 / 2
          else (let source_lower = lower (source a)
                in if list_ex (\<lambda>trusted_source.
                        str_in (lower trusted_source) source_lower
                        \<or> str_in source_lower (lower trusted_source))
                      (trusted_sources topic_config)
                   then 1 else 1 / 2))"

text \<open>\<open>round(x, ndigits)\<close> on the exact value: to the nearest multiple of \<open>10^-ndigits\<close>.\<close>

definition py_round_digits :: "rat \<Rightarrow> nat \<Rightarrow> rat" where
  "py_round_digits x ndigits = of_int (py_round (x * 10 ^ ndigits)) / 10 ^ ndigits"

definition calculate_score :: "(string \<rightharpoonup> TopicConfig) \<Rightarrow> datetime \<Rightarrow> Article \<Rightarrow> rat" where
  "calculate_score topics now a =
     (let content_score = score_content_depth a;
          recency_score = score_recency now a;
          source_score = score_source_trust topics a;
          total_score = content_score * CONTENT_WEIGHT + recency_score * RECENCY_WEIGHT
                        + source_score * SOURCE_WEIGHT
      in py_round_digits total_score 3)"

text \<open>
  \<open>rank_and_filter\<close>. Every article is scored by its own call of \<open>calculate_score\<close>,
  hence at its own clock reading: \<open>clock i\<close> is the reading for the article at
  position \<open>i\<close>.
\<close>

fun score_all ::
  "(string \<rightharpoonup> TopicConfig) \<Rightarrow> (nat \<Rightarrow> datetime) \<Rightarrow> nat \<Rightarrow> Article list \<Rightarrow> RankedArticle list" where
  "score_all topics clock i [] = []"
| "score_all topics clock i (a # as) =
     \<lparr>article = a, quality_score = calculate_score topics (clock i) a\<rparr>
       # score_all topics clock (Suc i) as"

text \<open>
  \<open>articles_by_topic[topic].append(ranked_article)\<close> on a \<open>defaultdict(list)\<close>: the
  dictionary keeps its keys in the order of their first insertion, so it is an
  association list here.
\<close>

fun group_append ::
  "(string \<times> RankedArticle list) list \<Rightarrow> string \<Rightarrow> RankedArticle
     \<Rightarrow> (string \<times> RankedArticle list) list" where
  "group_append [] k ra = [(k, [ra])]"
| "group_append ((k', ras) # groups) k ra =
     (if k' = k then (k', ras @ [ra]) # groups else (k', ras) # group_append groups k ra)"

definition group_by_topic :: "RankedArticle list \<Rightarrow> (string \<times> RankedArticle list) list" where
  "group_by_topic ranked_articles =
     foldl (\<lambda>groups ra. group_append groups (topic (article ra)) ra) [] ranked_articles"

text \<open>The slice \<open>xs[:n]\<close>: a negative \<open>n\<close> counts from the end.\<close>

definition py_slice_to :: "int \<Rightarrow> 'a list \<Rightarrow> 'a list" where
  "py_slice_to n xs = (if 0 \<le> n then take (nat n) xs else take (nat (int (length xs) + n)) xs)"

text \<open>
  The body of the loop over the topics. \<open>sort(key=..., reverse=True)\<close> is a stable
  descending sort: a stable ascending sort on the negated key.
\<close>

definition filter_topic ::
  "(string \<rightharpoonup> TopicConfig) \<Rightarrow> string \<times> RankedArticle list \<Rightarrow> RankedArticle list" where
  "filter_topic topics g =
     (case topics (fst g) of
        None \<Rightarrow> []
      | Some topic_config \<Rightarrow>
          (let topic_articles =
                 filter (\<lambda>ra. min_quality_score topic_config \<le> quality_score ra) (snd g);
               topic_articles = sort_key (\<lambda>ra. - quality_score ra) topic_articles
           in py_slice_to (max_articles_per_day topic_config) topic_articles))"

definition rank_and_filter ::
  "(string \<rightharpoonup> TopicConfig) \<Rightarrow> (nat \<Rightarrow> datetime) \<Rightarrow> Article list \<Rightarrow> RankedArticle list" where
  "rank_and_filter topics clock articles =
     (if articles = [] then []
      else concat (map (filter_topic topics)
                     (group_by_topic (score_all topics clock 0 articles))))"

text \<open>Topic configurations and articles for the evaluations below.\<close>

definition mk_topic :: "rat \<Rightarrow> int \<Rightarrow> TopicConfig" where
  "mk_topic min_score max_articles =
     \<lparr>tc_audience_level = ''beginner'', include_context = False, context_text = None,
      min_quality_score = min_score, max_articles_per_day = max_articles,
      trusted_sources = []\<rparr>"

text \<open>
  The invariant of the grouping: the keys are distinct and every group holds articles
  of its key's topic only.
\<close>

definition well_grouped :: "(string \<times> RankedArticle list) list \<Rightarrow> bool" where
  "well_grouped groups =
     (distinct (map fst groups)
      \<and> (\<forall>g \<in> set groups. \<forall>ra \<in> set (snd g). topic (article ra) = fst g))"

text \<open>
  The recency term of the weighted sum in thousandths, \<open>1000 \<cdot> RECENCY_WEIGHT \<cdot> recency\<close>:
  an even integer at every age.
\<close>

definition recency_points :: "datetime \<Rightarrow> Article \<Rightarrow> int" where
  "recency_points now a =
     (let age = now - published_at a
      in if age < hours 24 then 300
         else if age < hours 48 then 150
         else if age < hours 72 then 60
         else 0)"

section \<open>Provider metrics: accounting invariant\<close>

lemma run_calls_snoc: "run_calls m (cs @ [c]) = apply_call (run_calls m cs) c"
  by (simp add: run_calls_def)

lemma run_calls_totals:
  "total_requests (run_calls m cs) - successful_requests (run_calls m cs)
     - failed_requests (run_calls m cs)
   = total_requests m - successful_requests m - failed_requests m"
proof (induction cs rule: rev_induct)
  case Nil
  show ?case by (simp add: run_calls_def)
next
  case (snoc c cs)
  then show ?case
    by (cases c) (simp_all add: run_calls_snoc record_success_def record_failure_def)
qed

lemma run_calls_consecutive:
  "consecutive_failures (run_calls (new_metrics pid) cs) = int (failures_since_success cs)"
proof (induction cs rule: rev_induct)
  case Nil
  show ?case by (simp add: run_calls_def new_metrics_def failures_since_success_def)
next
  case (snoc c cs)
  then show ?case
    by (cases c)
       (simp_all add: run_calls_snoc record_success_def record_failure_def
          failures_since_success_def)
qed

text \<open>
  Claim C10. Starting from a fresh \<open>ProviderMetrics\<close>, after any sequence of
  \<open>record_success\<close> and \<open>record_failure\<close> calls, \<open>total_requests\<close> is the sum of
  \<open>successful_requests\<close> and \<open>failed_requests\<close>, and \<open>consecutive_failures\<close> is the
  number of \<open>record_failure\<close> calls made after the most recent \<open>record_success\<close>; it is
  0 right after a success.
\<close>

theorem metrics_accounting_invariant:
  "total_requests (run_calls (new_metrics pid) cs)
     = successful_requests (run_calls (new_metrics pid) cs)
       + failed_requests (run_calls (new_metrics pid) cs)
   \<and> consecutive_failures (run_calls (new_metrics pid) cs) = int (failures_since_success cs)
   \<and> consecutive_failures
       (run_calls (new_metrics pid) (cs @ [RecordSuccess latency input_tokens output_tokens])) = 0"
proof -
  have "total_requests (run_calls (new_metrics pid) cs)
          - successful_requests (run_calls (new_metrics pid) cs)
          - failed_requests (run_calls (new_metrics pid) cs) = 0"
    by (simp add: run_calls_totals) (simp add: new_metrics_def)
  moreover have "consecutive_failures
       (run_calls (new_metrics pid) (cs @ [RecordSuccess latency input_tokens output_tokens])) = 0"
    by (simp add: run_calls_snoc record_success_def)
  ultimately show ?thesis
    by (simp add: run_calls_consecutive)
qed

section \<open>Deduplicator: the URL pass\<close>

lemma foldl_url_step:
  "foldl url_step (seen, acc) xs = (seen \<union> url ` set xs, acc @ first_seen seen xs)"
  by (induction xs arbitrary: seen acc) auto

lemma deduplicate_by_url_first_seen: "deduplicate_by_url xs = first_seen {} xs"
  by (simp add: deduplicate_by_url_def foldl_url_step)

lemma first_seen_urls: "url ` set (first_seen seen xs) = url ` set xs - seen"
  by (induction xs arbitrary: seen) auto

lemma first_seen_distinct: "distinct (map url (first_seen seen xs))"
proof (induction xs arbitrary: seen)
  case Nil
  show ?case by simp
next
  case (Cons a as)
  have "url a \<notin> url ` set (first_seen (insert (url a) seen) as)"
    by (simp add: first_seen_urls)
  with Cons show ?case by auto
qed

lemma first_seen_subseq: "subseq (first_seen seen xs) xs"
  by (induction xs arbitrary: seen) auto

lemma first_seen_find:
  "find (\<lambda>a. url a = u) (first_seen seen xs)
     = (if u \<in> seen then None else find (\<lambda>a. url a = u) xs)"
proof (induction xs arbitrary: seen)
  case Nil
  show ?case by simp
next
  case (Cons a as)
  show ?case
  proof (cases "url a \<in> seen")
    case True
    then show ?thesis using Cons by auto
  next
    case False
    then show ?thesis using Cons by (auto simp: find_None_iff first_seen_urls)
  qed
qed

text \<open>
  Claim C8. The URL pass keeps exactly the first occurrence of each distinct url: no two
  kept articles share a url, the kept articles are a subsequence of the input (so they
  stand in first-seen input order), and for every url \<open>u\<close> the kept article with url
  \<open>u\<close> is the first article of the input with url \<open>u\<close> (none is kept when the input has
  none).
\<close>

theorem url_pass_invariant:
  "distinct (map url (deduplicate_by_url xs))
   \<and> subseq (deduplicate_by_url xs) xs
   \<and> find (\<lambda>a. url a = u) (deduplicate_by_url xs) = find (\<lambda>a. url a = u) xs"
  by (simp add: deduplicate_by_url_first_seen first_seen_distinct first_seen_subseq
      first_seen_find)

section \<open>Deduplicator: the history pass\<close>

text \<open>
  Claim C7. An article whose url is a key of the history map loaded before the run is
  absent from the output of \<open>deduplicate\<close>, both as a value and under the articles' own
  equality (no output article has its url).
\<close>

theorem history_containment:
  assumes "url a \<in> dom (history d)"
  shows "a \<notin> set (deduplicate ratio d articles)
         \<and> (\<forall>b \<in> set (deduplicate ratio d articles). \<not> article_eq b a)"
  using assms by (auto simp: deduplicate_def filter_sent_def is_sent_def article_eq_def)

theorem history_containment_witness:
  "url (mk_article ''https://a.example/1'' ''GPT-5 out'' 100) \<in> dom (history sent_before)
   \<and> mk_article ''https://a.example/1'' ''GPT-5 out'' 100
       \<notin> set (deduplicate fuzz_ratio sent_before
                [mk_article ''https://a.example/1'' ''GPT-5 out'' 100,
                 mk_article ''https://b.example/2'' ''Robots at work'' 200])"
  using history_containment [of "mk_article ''https://a.example/1'' ''GPT-5 out'' 100"
      sent_before fuzz_ratio
      "[mk_article ''https://a.example/1'' ''GPT-5 out'' 100,
        mk_article ''https://b.example/2'' ''Robots at work'' 200]"]
  by (simp add: sent_before_def mk_article_def)

section \<open>Deduplicator: the title pass\<close>

lemma find_duplicate_in_list:
  "find_duplicate ratio thr a us = Some u \<Longrightarrow> u \<in> set us"
  by (induction us) (auto split: if_splits)

lemma lower_titles:
  "lower ''GPT-5 out now'' = ''gpt-5 out now''"
  "lower ''New GPT-5 out'' = ''new gpt-5 out''"
  "lower ''GPT-5 out'' = ''gpt-5 out''"
  by code_simp+

lemma ratio_values:
  "fuzz_ratio ''new gpt-5 out'' ''gpt-5 out now'' = 69"
  "fuzz_ratio ''gpt-5 out'' ''gpt-5 out now'' = 82"
  "fuzz_ratio ''gpt-5 out now'' ''gpt-5 out'' = 82"
  "fuzz_ratio ''gpt-5 out'' ''new gpt-5 out'' = 82"
  "fuzz_ratio ''gpt-5 out'' ''gpt-5 out'' = 100"
  by code_simp+

lemmas dedup_eval = deduplicate_def deduplicate_by_url_def deduplicate_by_title_def
  filter_sent_def is_sent_def title_step_def article_eq_def mk_article_def
  no_history_def sent_before_def lower_titles ratio_values

lemma first_pass:
  "deduplicate fuzz_ratio no_history
     [mk_article ''https://a.example/1'' ''GPT-5 out now'' 200,
      mk_article ''https://b.example/2'' ''New GPT-5 out'' 100,
      mk_article ''https://c.example/3'' ''GPT-5 out'' 150]
   = [mk_article ''https://b.example/2'' ''New GPT-5 out'' 100,
      mk_article ''https://c.example/3'' ''GPT-5 out'' 150]"
  by (simp add: dedup_eval)

lemma second_pass:
  "deduplicate fuzz_ratio no_history
     [mk_article ''https://b.example/2'' ''New GPT-5 out'' 100,
      mk_article ''https://c.example/3'' ''GPT-5 out'' 150]
   = [mk_article ''https://b.example/2'' ''New GPT-5 out'' 100]"
  by (simp add: dedup_eval)

text \<open>
  Claim C1 (idempotence of \<open>deduplicate\<close>) fails on the code. With threshold 80 and an
  empty history, take the articles "GPT-5 out now" (published at 200), "New GPT-5 out"
  (published at 100) and "GPT-5 out" (published at 150), in this order. The first two
  titles score 69 against each other and are both accepted. The third scores 82 against
  the first and is earlier, so it replaces the first; the inner loop stops there and the
  third is never compared with the second, against which it also scores 82. One pass
  therefore returns two articles with near-duplicate titles, and a second pass drops
  one of them.
\<close>

theorem deduplicate_not_idempotent:
  "deduplicate fuzz_ratio no_history
     (deduplicate fuzz_ratio no_history
        [mk_article ''https://a.example/1'' ''GPT-5 out now'' 200,
         mk_article ''https://b.example/2'' ''New GPT-5 out'' 100,
         mk_article ''https://c.example/3'' ''GPT-5 out'' 150])
   \<noteq> deduplicate fuzz_ratio no_history
        [mk_article ''https://a.example/1'' ''GPT-5 out now'' 200,
         mk_article ''https://b.example/2'' ''New GPT-5 out'' 100,
         mk_article ''https://c.example/3'' ''GPT-5 out'' 150]"
  by (simp only: first_pass second_pass) simp

lemma find_longest_match_bound:
  "find_longest_match a b i0 = (k, i, j) \<Longrightarrow> 0 < k \<Longrightarrow> i0 \<le> i \<and> i < i0 + length a"
proof (induction a arbitrary: i0 k i j)
  case Nil
  then show ?case by simp
next
  case (Cons x xs)
  obtain k1 j1 where b: "best_in_b (x # xs) b 0 = (k1, j1)" by (cases "best_in_b (x # xs) b 0")
  obtain k2 i2 j2 where r: "find_longest_match xs b (Suc i0) = (k2, i2, j2)"
    by (cases "find_longest_match xs b (Suc i0)") auto
  show ?case
  proof (cases "k1 < k2")
    case True
    with Cons.prems b r have "k = k2" "i = i2" by simp_all
    with Cons.IH [OF r] Cons.prems(2) show ?thesis by auto
  next
    case False
    with Cons.prems b r have "i = i0" by simp
    then show ?thesis by simp
  qed
qed

























section \<open>Provider selector: strategies\<close>

lemma mset_sort_key_map: "mset (map g (sort_key f xs)) = mset (map g xs)"
  by (metis mset_map mset_sort)

text \<open>
  Claim C9. For every list of provider configurations and every strategy string, the
  provider order holds exactly the provider ids of the enabled configurations (as a
  multiset). Under \<open>"performance"\<close>, and under every strategy string other than
  \<open>"priority"\<close> and \<open>"cost"\<close>, the order is the one of the \<open>"priority"\<close> strategy, which
  lists the enabled configurations by ascending priority number (ties in input order).
\<close>

theorem selector_order:
  "mset (build_provider_order strat configs) = mset (map provider_id (filter enabled configs))
   \<and> build_provider_order ''performance'' configs = build_provider_order ''priority'' configs
   \<and> (strat \<noteq> ''priority'' \<and> strat \<noteq> ''cost'' \<longrightarrow>
        build_provider_order strat configs = build_provider_order ''priority'' configs)
   \<and> build_provider_order ''priority'' configs
        = map provider_id (sort_key priority (filter enabled configs))
   \<and> sorted (map priority (sort_key priority (filter enabled configs)))"
  by (simp add: build_provider_order_def Let_def mset_sort_key_map)

theorem selector_order_witness:
  "''latency'' \<noteq> ''priority'' \<and> ''latency'' \<noteq> ''cost''
   \<and> build_provider_order ''latency''
        [mk_provider ''openai_fallback'' True 20, mk_provider ''off'' False 1,
         mk_provider ''anthropic_primary'' True 10]
      = build_provider_order ''priority''
        [mk_provider ''openai_fallback'' True 20, mk_provider ''off'' False 1,
         mk_provider ''anthropic_primary'' True 10]
   \<and> build_provider_order ''priority''
        [mk_provider ''openai_fallback'' True 20, mk_provider ''off'' False 1,
         mk_provider ''anthropic_primary'' True 10]
      = [''anthropic_primary'', ''openai_fallback'']"
  using selector_order [of "''latency''"
      "[mk_provider ''openai_fallback'' True 20, mk_provider ''off'' False 1,
        mk_provider ''anthropic_primary'' True 10]"]
  by (simp add: build_provider_order_def Let_def mk_provider_def)


section \<open>Multi-provider summarizer: the fallback walk\<close>

lemma fallback_loop_exhausted:
  assumes "\<forall>pid \<in> set chain. \<exists>p. registry s pid = Some p \<and>
             (\<forall>prompt. create_prompt fmt (prompts s) a lvl tp = Some prompt \<longrightarrow>
                call_fails (p a prompt (max_tokens_per_summary s) (summarization_temperature s)))"
  shows "\<exists>s'. fallback_loop fmt a lvl tp chain s = Inr (from_article a [] lvl True, s')"
  using assms
proof (induction chain arbitrary: s)
  case Nil
  show ?case by simp
next
  case (Cons pid rest)
  from Cons.prems obtain p where p: "registry s pid = Some p"
    and fails: "\<And>prompt. create_prompt fmt (prompts s) a lvl tp = Some prompt \<Longrightarrow>
       call_fails (p a prompt (max_tokens_per_summary s) (summarization_temperature s))"
    by auto
  have rest: "\<And>s'. registry s' = registry s \<Longrightarrow> prompts s' = prompts s \<Longrightarrow>
      max_tokens_per_summary s' = max_tokens_per_summary s \<Longrightarrow>
      summarization_temperature s' = summarization_temperature s \<Longrightarrow>
      \<exists>s''. fallback_loop fmt a lvl tp rest s' = Inr (from_article a [] lvl True, s'')"
    using Cons.prems by (intro Cons.IH) simp
  show ?case
  proof (cases "create_prompt fmt (prompts s) a lvl tp")
    case None
    then show ?thesis using p rest [of s] by (simp add: get_provider_def)
  next
    case (Some prompt)
    show ?thesis
    proof (cases "p a prompt (max_tokens_per_summary s) (summarization_temperature s)")
      case (Raises e)
      then show ?thesis using p Some rest [of s] by (simp add: get_provider_def)
    next
      case (Returns bullets usage)
      with fails [OF Some] have "length bullets < 3" by simp
      then show ?thesis
        using p Some Returns
          rest [of "s\<lparr>run_input_tokens := run_input_tokens s + usage_get usage ''input_tokens'',
                      run_output_tokens := run_output_tokens s + usage_get usage ''output_tokens''\<rparr>"]
        by (simp add: get_provider_def Let_def)
    qed
  qed
qed

lemma fallback_loop_first_success:
  assumes "\<forall>q \<in> set pre. \<exists>p'. registry s q = Some p' \<and>
             call_fails (p' a prompt (max_tokens_per_summary s) (summarization_temperature s))"
    and "create_prompt fmt (prompts s) a lvl tp = Some prompt"
    and "registry s pid = Some p"
    and "p a prompt (max_tokens_per_summary s) (summarization_temperature s)
           = Returns bullets usage"
    and "3 \<le> length bullets"
  shows "\<exists>s'. fallback_loop fmt a lvl tp (pre @ pid # post) s
           = Inr (from_article a (take 5 bullets) lvl False, s')"
  using assms
proof (induction pre arbitrary: s)
  case Nil
  then show ?case by (simp add: get_provider_def Let_def)
next
  case (Cons q pre)
  from Cons.prems(1) obtain p' where p': "registry s q = Some p'"
    and fails: "call_fails (p' a prompt (max_tokens_per_summary s) (summarization_temperature s))"
    by auto
  have rest: "\<And>s'. registry s' = registry s \<Longrightarrow> prompts s' = prompts s \<Longrightarrow>
      max_tokens_per_summary s' = max_tokens_per_summary s \<Longrightarrow>
      summarization_temperature s' = summarization_temperature s \<Longrightarrow>
      \<exists>s''. fallback_loop fmt a lvl tp (pre @ pid # post) s'
         = Inr (from_article a (take 5 bullets) lvl False, s'')"
    using Cons.prems by (intro Cons.IH) simp_all
  show ?case
  proof (cases "p' a prompt (max_tokens_per_summary s) (summarization_temperature s)")
    case (Raises e)
    then show ?thesis
      using p' Cons.prems(2) rest [of s] by (simp add: get_provider_def)
  next
    case (Returns bs us)
    with fails have "length bs < 3" by simp
    then show ?thesis
      using p' Cons.prems(2) Returns
        rest [of "s\<lparr>run_input_tokens := run_input_tokens s + usage_get us ''input_tokens'',
                    run_output_tokens := run_output_tokens s + usage_get us ''output_tokens''\<rparr>"]
      by (simp add: get_provider_def Let_def)
  qed
qed

lemma fallback_loop_shape:
  "fallback_loop fmt a lvl tp chain s = Inr (sa, s') \<Longrightarrow>
     length (summary_bullets sa) \<in> {0, 3, 4, 5}
     \<and> (summarization_failed sa \<longleftrightarrow> summary_bullets sa = [])"
proof (induction chain arbitrary: s)
  case Nil
  then show ?case by (auto simp: from_article_def)
next
  case (Cons pid rest)
  show ?case
  proof (cases "registry s pid")
    case None
    with Cons.prems show ?thesis by (simp add: get_provider_def)
  next
    case (Some p)
    show ?thesis
    proof (cases "create_prompt fmt (prompts s) a lvl tp")
      case None
      with Cons Some show ?thesis by (simp add: get_provider_def)
    next
      case prompt: (Some prompt)
      show ?thesis
      proof (cases "p a prompt (max_tokens_per_summary s) (summarization_temperature s)")
        case (Raises e)
        with Cons Some prompt show ?thesis by (simp add: get_provider_def)
      next
        case (Returns bs us)
        show ?thesis
        proof (cases "length bs < 3")
          case True
          with Cons.prems Some prompt Returns
          have "fallback_loop fmt a lvl tp rest
                  (s\<lparr>run_input_tokens := run_input_tokens s + usage_get us ''input_tokens'',
                     run_output_tokens := run_output_tokens s + usage_get us ''output_tokens''\<rparr>)
                = Inr (sa, s')"
            by (simp add: get_provider_def Let_def)
          then show ?thesis by (rule Cons.IH)
        next
          case False
          then have "length (take 5 bs) \<in> {3, 4, 5}" by auto
          moreover have "take 5 bs \<noteq> []" using False by auto
          moreover have "sa = from_article a (take 5 bs) lvl False"
            using Cons.prems Some prompt Returns False by (simp add: get_provider_def Let_def)
          ultimately show ?thesis by (auto simp: from_article_def)
        qed
      qed
    qed
  qed
qed

text \<open>
  Claim C3. If every provider id of the selector's chain is registered and its
  \<open>summarize_async\<close> raises or returns fewer than three bullets on the prompt built for
  the article, then the fallback walk returns a \<open>SummarizedArticle\<close> for that article
  with \<open>summarization_failed\<close> set and no bullets: the article is produced, not dropped.
\<close>

theorem provider_chain_exhaustion:
  assumes "\<forall>pid \<in> set (get_provider_chain (selector s)). \<exists>p. registry s pid = Some p \<and>
             (\<forall>prompt. create_prompt fmt (prompts s) a lvl tp = Some prompt \<longrightarrow>
                call_fails (p a prompt (max_tokens_per_summary s) (summarization_temperature s)))"
  shows "\<exists>sa s'. summarize_article_with_fallback fmt s a lvl tp = Inr (sa, s')
           \<and> summarization_failed sa \<and> summary_bullets sa = []
           \<and> url sa = url a \<and> title sa = title a \<and> audience_level sa = lvl"
proof -
  from fallback_loop_exhausted [OF assms] obtain s'
    where "fallback_loop fmt a lvl tp (get_provider_chain (selector s)) s
             = Inr (from_article a [] lvl True, s')" ..
  then have "summarize_article_with_fallback fmt s a lvl tp = Inr (from_article a [] lvl True, s')
      \<and> summarization_failed (from_article a [] lvl True)
      \<and> summary_bullets (from_article a [] lvl True) = []
      \<and> url (from_article a [] lvl True) = url a
      \<and> title (from_article a [] lvl True) = title a
      \<and> audience_level (from_article a [] lvl True) = lvl"
    by (simp add: summarize_article_with_fallback_def from_article_def)
  then show ?thesis by (intro exI)
qed

theorem provider_chain_exhaustion_witness:
  "\<exists>sa s'. summarize_article_with_fallback simple_fmt
       (mk_summarizer [''primary'' \<mapsto> down_provider, ''fallback'' \<mapsto> short_provider]
          [''primary'', ''fallback''])
       (mk_article ''https://a.example/1'' ''GPT-5 out'' 100) ''beginner'' ''ai'' = Inr (sa, s')
     \<and> summarization_failed sa \<and> summary_bullets sa = []
     \<and> url sa = url (mk_article ''https://a.example/1'' ''GPT-5 out'' 100)
     \<and> title sa = title (mk_article ''https://a.example/1'' ''GPT-5 out'' 100)
     \<and> audience_level sa = ''beginner''"
proof (rule provider_chain_exhaustion)
  show "\<forall>pid \<in> set (get_provider_chain (selector
            (mk_summarizer [''primary'' \<mapsto> down_provider, ''fallback'' \<mapsto> short_provider]
               [''primary'', ''fallback'']))).
          \<exists>p. registry (mk_summarizer [''primary'' \<mapsto> down_provider, ''fallback'' \<mapsto> short_provider]
                  [''primary'', ''fallback'']) pid = Some p \<and>
            (\<forall>prompt. create_prompt simple_fmt
                 (prompts (mk_summarizer
                    [''primary'' \<mapsto> down_provider, ''fallback'' \<mapsto> short_provider]
                    [''primary'', ''fallback'']))
                 (mk_article ''https://a.example/1'' ''GPT-5 out'' 100) ''beginner'' ''ai''
                   = Some prompt \<longrightarrow>
               call_fails (p (mk_article ''https://a.example/1'' ''GPT-5 out'' 100) prompt
                 (max_tokens_per_summary (mk_summarizer
                    [''primary'' \<mapsto> down_provider, ''fallback'' \<mapsto> short_provider]
                    [''primary'', ''fallback'']))
                 (summarization_temperature (mk_summarizer
                    [''primary'' \<mapsto> down_provider, ''fallback'' \<mapsto> short_provider]
                    [''primary'', ''fallback'']))))"
    by (simp add: mk_summarizer_def get_provider_chain_def down_provider_def
        short_provider_def)
qed

text \<open>
  Claim C4. If the providers of the chain before some provider all fail (raise or
  return fewer than three bullets) and that provider returns \<open>n \<ge> 3\<close> bullets, the
  result has \<open>summarization_failed = False\<close> and carries the first \<open>min n 5\<close> of those
  bullets in their order, so exactly five when \<open>n > 5\<close>. Moreover every article that
  the walk returns has 0 or 3 to 5 bullets, and its failed flag is set exactly when it
  has none.
\<close>

theorem bullet_truncation:
  assumes "get_provider_chain (selector s) = pre @ pid # post"
    and "\<forall>q \<in> set pre. \<exists>p'. registry s q = Some p' \<and>
           call_fails (p' a prompt (max_tokens_per_summary s) (summarization_temperature s))"
    and "create_prompt fmt (prompts s) a lvl tp = Some prompt"
    and "registry s pid = Some p"
    and "p a prompt (max_tokens_per_summary s) (summarization_temperature s)
           = Returns bullets usage"
    and "3 \<le> length bullets"
  shows "(\<exists>sa s'. summarize_article_with_fallback fmt s a lvl tp = Inr (sa, s')
            \<and> \<not> summarization_failed sa
            \<and> summary_bullets sa = take (min (length bullets) 5) bullets
            \<and> (5 < length bullets \<longrightarrow> length (summary_bullets sa) = 5))
         \<and> (\<forall>fmt0 s0 a0 lvl0 tp0 sa0 s1.
              summarize_article_with_fallback fmt0 s0 a0 lvl0 tp0 = Inr (sa0, s1) \<longrightarrow>
                length (summary_bullets sa0) \<in> {0, 3, 4, 5}
                \<and> (summarization_failed sa0 \<longleftrightarrow> summary_bullets sa0 = []))"
proof -
  from fallback_loop_first_success [OF assms(2-6)] obtain s'
    where "fallback_loop fmt a lvl tp (pre @ pid # post) s
             = Inr (from_article a (take 5 bullets) lvl False, s')" ..
  moreover have nonempty: "take 5 bullets \<noteq> []" using assms(6) by auto
  moreover have took: "take (min (length bullets) 5) bullets = take 5 bullets"
    by (cases "length bullets \<le> 5") (simp_all add: min_def)
  ultimately have "summarize_article_with_fallback fmt s a lvl tp
        = Inr (from_article a (take 5 bullets) lvl False, s')
      \<and> \<not> summarization_failed (from_article a (take 5 bullets) lvl False)
      \<and> summary_bullets (from_article a (take 5 bullets) lvl False)
          = take (min (length bullets) 5) bullets
      \<and> (5 < length bullets \<longrightarrow>
           length (summary_bullets (from_article a (take 5 bullets) lvl False)) = 5)"
    by (simp add: summarize_article_with_fallback_def assms(1) from_article_def took)
  then have first: "\<exists>sa s'. summarize_article_with_fallback fmt s a lvl tp = Inr (sa, s')
            \<and> \<not> summarization_failed sa
            \<and> summary_bullets sa = take (min (length bullets) 5) bullets
            \<and> (5 < length bullets \<longrightarrow> length (summary_bullets sa) = 5)"
    by (intro exI)
  have shape: "\<forall>fmt0 s0 a0 lvl0 tp0 sa0 s1.
              summarize_article_with_fallback fmt0 s0 a0 lvl0 tp0 = Inr (sa0, s1) \<longrightarrow>
                length (summary_bullets sa0) \<in> {0, 3, 4, 5}
                \<and> (summarization_failed sa0 \<longleftrightarrow> summary_bullets sa0 = [])"
    unfolding summarize_article_with_fallback_def
    by (intro allI impI) (rule fallback_loop_shape)
  from first shape show ?thesis by (rule conjI)
qed

theorem bullet_truncation_witness:
  "\<exists>sa s'. summarize_article_with_fallback simple_fmt
       (mk_summarizer [''primary'' \<mapsto> down_provider, ''second'' \<mapsto> short_provider,
                       ''third'' \<mapsto> long_provider]
          [''primary'', ''second'', ''third''])
       (mk_article ''https://a.example/1'' ''GPT-5 out'' 100) ''beginner'' ''ai'' = Inr (sa, s')
     \<and> \<not> summarization_failed sa
     \<and> summary_bullets sa
         = [''bullet one'', ''bullet two'', ''bullet three'', ''bullet four'', ''bullet five'']"
proof -
  let ?s = "mk_summarizer [''primary'' \<mapsto> down_provider, ''second'' \<mapsto> short_provider,
                           ''third'' \<mapsto> long_provider]
              [''primary'', ''second'', ''third'']"
  let ?a = "mk_article ''https://a.example/1'' ''GPT-5 out'' 100"
  let ?bs = "[''bullet one'', ''bullet two'', ''bullet three'', ''bullet four'',
              ''bullet five'', ''bullet six'']"
  have chain: "get_provider_chain (selector ?s) = [''primary'', ''second''] @ ''third'' # []"
    by (simp add: mk_summarizer_def get_provider_chain_def)
  have pre: "\<forall>q \<in> set [''primary'', ''second'']. \<exists>p'. registry ?s q = Some p' \<and>
           call_fails (p' ?a ''Summarize: aiGPT-5 outtext'' (max_tokens_per_summary ?s)
             (summarization_temperature ?s))"
    by (simp add: mk_summarizer_def down_provider_def short_provider_def)
  have prompt: "create_prompt simple_fmt (prompts ?s) ?a ''beginner'' ''ai''
                  = Some ''Summarize: aiGPT-5 outtext''"
    by (simp add: mk_summarizer_def mk_article_def create_prompt_def simple_fmt_def)
  have reg: "registry ?s ''third'' = Some long_provider"
    by (simp add: mk_summarizer_def)
  have ret: "long_provider ?a ''Summarize: aiGPT-5 outtext'' (max_tokens_per_summary ?s)
               (summarization_temperature ?s)
             = Returns ?bs [''input_tokens'' \<mapsto> 100, ''output_tokens'' \<mapsto> 50]"
    by (simp add: long_provider_def)
  have len: "3 \<le> length ?bs" by simp
  have "\<exists>sa s'. summarize_article_with_fallback simple_fmt ?s ?a ''beginner'' ''ai'' = Inr (sa, s')
            \<and> \<not> summarization_failed sa
            \<and> summary_bullets sa = take (min (length ?bs) 5) ?bs
            \<and> (5 < length ?bs \<longrightarrow> length (summary_bullets sa) = 5)"
    using bullet_truncation [where s = ?s and pre = "[''primary'', ''second'']"
        and pid = "''third''" and post = "[]" and a = ?a
        and prompt = "''Summarize: aiGPT-5 outtext''" and fmt = simple_fmt
        and lvl = "''beginner''" and tp = "''ai''" and p = long_provider and bullets = ?bs
        and usage = "[''input_tokens'' \<mapsto> 100, ''output_tokens'' \<mapsto> 50]",
        OF chain pre prompt reg ret len]
    by (rule conjunct1)
  then show ?thesis
  proof (elim exE conjE)
    fix sa s'
    assume res: "summarize_article_with_fallback simple_fmt ?s ?a ''beginner'' ''ai''
                   = Inr (sa, s')"
      and ok: "\<not> summarization_failed sa"
      and bs: "summary_bullets sa = take (min (length ?bs) 5) ?bs"
    have "take (min (length ?bs) 5) ?bs
            = [''bullet one'', ''bullet two'', ''bullet three'', ''bullet four'',
               ''bullet five'']"
      by simp
    with bs have "summary_bullets sa
            = [''bullet one'', ''bullet two'', ''bullet three'', ''bullet four'',
               ''bullet five'']"
      by (rule trans)
    with res ok show ?thesis by (intro exI conjI)
  qed
qed

section \<open>Article ranker: scoring\<close>

text \<open>The three sub-scores lie between 0 and 1.\<close>

lemma depth_low: "(0::rat) \<le> L \<Longrightarrow> L < 200 \<Longrightarrow> 0 \<le> L / 400 \<and> L / 400 \<le> 1"
  by (intro conjI) linarith+

lemma depth_mid:
  "(200::rat) \<le> L \<Longrightarrow> L < 500 \<Longrightarrow>
     0 \<le> 1 / 2 + (L - 200) / 1000 \<and> 1 / 2 + (L - 200) / 1000 \<le> 1"
  by (simp add: field_simps)

lemma depth_high:
  "(0::rat) \<le> E \<Longrightarrow> E \<le> 1000 \<Longrightarrow> 0 \<le> 8 / 10 + E / 5000 \<and> 8 / 10 + E / 5000 \<le> 1"
  by (intro conjI) linarith+

lemma score_content_depth_bounds: "0 \<le> score_content_depth a \<and> score_content_depth a \<le> 1"
proof -
  let ?n = "int (length (content a))"
  let ?L = "rat_of_nat (length (content a))"
  have L0: "0 \<le> ?L" by simp
  consider "?n < 200" | "200 \<le> ?n" "?n < 500" | "500 \<le> ?n" by linarith
  then show ?thesis
  proof cases
    case 1
    then have val: "score_content_depth a = ?L / 400"
      by (simp add: score_content_depth_def Let_def)
    from 1 have "?L < 200" by simp
    with L0 show ?thesis unfolding val by (rule depth_low)
  next
    case 2
    then have val: "score_content_depth a = 1 / 2 + (?L - 200) / 1000"
      by (simp add: score_content_depth_def Let_def)
    from 2 have "200 \<le> ?L" "?L < 500" by simp_all
    then show ?thesis unfolding val by (rule depth_mid)
  next
    case 3
    then have val: "score_content_depth a = 8 / 10 + min (?L - 500) 1000 / 5000"
      by (simp add: score_content_depth_def Let_def)
    from 3 have "500 \<le> ?L" by simp
    then have "0 \<le> min (?L - 500) 1000" "min (?L - 500) 1000 \<le> 1000" by simp_all
    then show ?thesis unfolding val by (rule depth_high)
  qed
qed

lemma score_recency_bounds: "0 \<le> score_recency now a \<and> score_recency now a \<le> 1"
  by (simp add: score_recency_def Let_def)

lemma score_source_trust_bounds:
  "0 \<le> score_source_trust topics a \<and> score_source_trust topics a \<le> 1"
  by (simp add: score_source_trust_def Let_def split: option.splits)

text \<open>Rounding keeps the bounds, and commutes with adding an even integer.\<close>

lemma py_round_bounds:
  assumes "0 \<le> x" and "x \<le> of_int n"
  shows "0 \<le> py_round x \<and> py_round x \<le> n"
proof -
  have f0: "0 \<le> \<lfloor>x\<rfloor>" using assms(1) by simp
  have fn: "\<lfloor>x\<rfloor> \<le> n" using assms(2) by (simp add: floor_le_iff)
  show ?thesis
  proof (cases "\<lfloor>x\<rfloor> = n")
    case True
    then have "x - of_int \<lfloor>x\<rfloor> \<le> 0" using assms(2) by simp
    then show ?thesis using True f0 by (simp add: py_round_def Let_def)
  next
    case False
    with fn have "\<lfloor>x\<rfloor> + 1 \<le> n" by simp
    then show ?thesis using f0 fn by (simp add: py_round_def Let_def)
  qed
qed

lemma py_round_shift:
  assumes "even k"
  shows "py_round (x + of_int k) = py_round x + k"
proof -
  have f: "\<lfloor>x + of_int k\<rfloor> = \<lfloor>x\<rfloor> + k" by simp
  have e: "even (\<lfloor>x\<rfloor> + k) = even \<lfloor>x\<rfloor>" using assms by simp
  show ?thesis unfolding py_round_def Let_def f e by simp
qed

lemma calculate_score_bounds:
  "0 \<le> calculate_score topics now a \<and> calculate_score topics now a \<le> 1"
proof -
  let ?t = "score_content_depth a * CONTENT_WEIGHT + score_recency now a * RECENCY_WEIGHT
            + score_source_trust topics a * SOURCE_WEIGHT"
  have c: "0 \<le> score_content_depth a" "score_content_depth a \<le> 1"
    using score_content_depth_bounds by simp_all
  have r: "0 \<le> score_recency now a" "score_recency now a \<le> 1"
    using score_recency_bounds by simp_all
  have t: "0 \<le> score_source_trust topics a" "score_source_trust topics a \<le> 1"
    using score_source_trust_bounds by simp_all
  have "0 \<le> ?t" using c r t by (simp add: CONTENT_WEIGHT_def RECENCY_WEIGHT_def SOURCE_WEIGHT_def)
  moreover have "?t \<le> 1" using c r t
    by (simp add: CONTENT_WEIGHT_def RECENCY_WEIGHT_def SOURCE_WEIGHT_def)
  ultimately have "0 \<le> ?t * 10 ^ 3" "?t * 10 ^ 3 \<le> of_int 1000" by simp_all
  from py_round_bounds [OF this]
  show ?thesis by (simp add: calculate_score_def Let_def py_round_digits_def)
qed

text \<open>
  The clock reading enters the score through the recency term only, and two recency
  sub-scores that differ give scores that differ.
\<close>

lemma recency_points_even: "even (recency_points now a)"
  by (simp add: recency_points_def Let_def)

lemma recency_points_score:
  "score_recency now a * RECENCY_WEIGHT * 10 ^ 3 = of_int (recency_points now a)"
  by (simp add: recency_points_def score_recency_def RECENCY_WEIGHT_def Let_def)

lemma recency_points_eq:
  "recency_points now a = recency_points now' a \<longleftrightarrow> score_recency now a = score_recency now' a"
  by (simp add: recency_points_def score_recency_def Let_def)

lemma calculate_score_points:
  "calculate_score topics now a
     = of_int (py_round ((score_content_depth a * CONTENT_WEIGHT
                          + score_source_trust topics a * SOURCE_WEIGHT) * 10 ^ 3)
               + recency_points now a) / 10 ^ 3"
proof -
  let ?base = "(score_content_depth a * CONTENT_WEIGHT
                + score_source_trust topics a * SOURCE_WEIGHT) * 10 ^ 3"
  have "(score_content_depth a * CONTENT_WEIGHT + score_recency now a * RECENCY_WEIGHT
         + score_source_trust topics a * SOURCE_WEIGHT) * 10 ^ 3
        = ?base + score_recency now a * RECENCY_WEIGHT * 10 ^ 3"
    by (simp add: algebra_simps)
  also have "\<dots> = ?base + of_int (recency_points now a)"
    by (simp only: recency_points_score)
  finally have "py_round ((score_content_depth a * CONTENT_WEIGHT
         + score_recency now a * RECENCY_WEIGHT
         + score_source_trust topics a * SOURCE_WEIGHT) * 10 ^ 3)
      = py_round ?base + recency_points now a"
    by (simp only: py_round_shift [OF recency_points_even])
  then show ?thesis by (simp only: calculate_score_def Let_def py_round_digits_def)
qed

lemma calculate_score_clock:
  "calculate_score topics now a = calculate_score topics now' a
     \<longleftrightarrow> score_recency now a = score_recency now' a"
  unfolding calculate_score_points recency_points_eq [symmetric] by simp

text \<open>
  Claim C5, as amended. For every article, every topic configuration and every clock
  reading, \<open>calculate_score\<close> is the weighted sum
  \<open>0.4 \<cdot> content_depth + 0.3 \<cdot> recency + 0.3 \<cdot> source_trust\<close> rounded to 3 decimals and
  lies in \<open>[0, 1]\<close>. The score is a function of the article, the topic configuration and
  the clock reading of the call: at two clock readings the scores of the same article
  are equal exactly when its recency sub-scores at the two readings are.
\<close>

theorem scoring_bounds:
  "0 \<le> calculate_score topics now a \<and> calculate_score topics now a \<le> 1
   \<and> calculate_score topics now a
       = py_round_digits (score_content_depth a * (4 / 10) + score_recency now a * (3 / 10)
                          + score_source_trust topics a * (3 / 10)) 3
   \<and> (calculate_score topics now a = calculate_score topics now' a
        \<longleftrightarrow> score_recency now a = score_recency now' a)"
proof (intro conjI)
  show "0 \<le> calculate_score topics now a" using calculate_score_bounds by simp
  show "calculate_score topics now a \<le> 1" using calculate_score_bounds by simp
  show "calculate_score topics now a
       = py_round_digits (score_content_depth a * (4 / 10) + score_recency now a * (3 / 10)
                          + score_source_trust topics a * (3 / 10)) 3"
    by (simp only: calculate_score_def Let_def CONTENT_WEIGHT_def RECENCY_WEIGHT_def
        SOURCE_WEIGHT_def)
  show "calculate_score topics now a = calculate_score topics now' a
        \<longleftrightarrow> score_recency now a = score_recency now' a"
    by (rule calculate_score_clock)
qed

text \<open>
  An article published at time 0, scored one hour and twenty-three hours later: both
  readings fall in the first recency tier and the two scores agree.
\<close>

theorem scoring_bounds_witness:
  "0 \<le> calculate_score Map.empty (hours 1) (mk_article ''https://a.example/1'' ''GPT-5 out'' 0)
   \<and> calculate_score Map.empty (hours 1) (mk_article ''https://a.example/1'' ''GPT-5 out'' 0)
       \<le> 1
   \<and> score_recency (hours 1) (mk_article ''https://a.example/1'' ''GPT-5 out'' 0)
       = score_recency (hours 23) (mk_article ''https://a.example/1'' ''GPT-5 out'' 0)
   \<and> calculate_score Map.empty (hours 1) (mk_article ''https://a.example/1'' ''GPT-5 out'' 0)
       = calculate_score Map.empty (hours 23)
           (mk_article ''https://a.example/1'' ''GPT-5 out'' 0)"
  using scoring_bounds [where topics = Map.empty and now = "hours 1" and now' = "hours 23"
      and a = "mk_article ''https://a.example/1'' ''GPT-5 out'' 0"]
  by (simp add: score_recency_def hours_def mk_article_def Let_def)

lemma score_values:
  "calculate_score Map.empty (hours 1) (mk_article u t 0) = 454 / 1000"
  "calculate_score Map.empty (hours 25) (mk_article u t 0) = 304 / 1000"
  by (simp_all add: calculate_score_def score_content_depth_def score_recency_def
      score_source_trust_def py_round_digits_def py_round_def hours_def mk_article_def
      CONTENT_WEIGHT_def RECENCY_WEIGHT_def SOURCE_WEIGHT_def Let_def)

text \<open>
  The claim as stated, that the same article always yields the same score, fails:
  \<open>_score_recency\<close> reads \<open>datetime.now()\<close>. The article published at time 0, with no
  topic configured, scores 0.454 one hour after its publication and 0.304 twenty-five
  hours after it.
\<close>

theorem scoring_bounds_counterexample:
  "calculate_score Map.empty (hours 1) (mk_article ''https://a.example/1'' ''GPT-5 out'' 0)
     = 454 / 1000
   \<and> calculate_score Map.empty (hours 25) (mk_article ''https://a.example/1'' ''GPT-5 out'' 0)
     = 304 / 1000"
  by (simp add: score_values)

section \<open>Article ranker: the per-topic cap\<close>

text \<open>The grouping loop keeps the keys distinct and every article under its own topic.\<close>

lemma group_append_keys:
  "set (map fst (group_append groups k ra)) = insert k (set (map fst groups))"
  by (induction groups k ra rule: group_append.induct) auto

lemma group_append_distinct:
  "distinct (map fst groups) \<Longrightarrow> distinct (map fst (group_append groups k ra))"
proof (induction groups k ra rule: group_append.induct)
  case (1 k ra)
  show ?case by simp
next
  case (2 k' ras groups k ra)
  show ?case
  proof (cases "k' = k")
    case True
    with "2.prems" show ?thesis by simp
  next
    case False
    from "2.prems" have d: "distinct (map fst groups)" and n: "k' \<notin> set (map fst groups)"
      by simp_all
    from "2.IH" [OF False d] have "distinct (map fst (group_append groups k ra))" .
    moreover from n False have "k' \<notin> set (map fst (group_append groups k ra))"
      unfolding group_append_keys by simp
    ultimately show ?thesis using False by simp
  qed
qed

lemma group_append_members:
  "(\<forall>g \<in> set groups. \<forall>x \<in> set (snd g). topic (article x) = fst g)
    \<Longrightarrow> topic (article ra) = k
    \<Longrightarrow> (\<forall>g \<in> set (group_append groups k ra). \<forall>x \<in> set (snd g). topic (article x) = fst g)"
  by (induction groups k ra rule: group_append.induct) auto

lemma well_grouped_append:
  "well_grouped groups \<Longrightarrow> well_grouped (group_append groups (topic (article ra)) ra)"
  unfolding well_grouped_def
  using group_append_distinct group_append_members by blast

lemma well_grouped_foldl:
  "well_grouped groups \<Longrightarrow>
     well_grouped (foldl (\<lambda>groups ra. group_append groups (topic (article ra)) ra) groups ras)"
  by (induction ras arbitrary: groups) (simp_all add: well_grouped_append)

lemma well_grouped_group_by_topic: "well_grouped (group_by_topic ras)"
  unfolding group_by_topic_def by (rule well_grouped_foldl) (simp add: well_grouped_def)

text \<open>
  The loop body returns articles of its group that reach the minimum score, at most
  \<open>max_articles_per_day\<close> of them when that number is not negative, and none for a
  topic without configuration.
\<close>

lemma set_py_slice_to: "set (py_slice_to n xs) \<subseteq> set xs"
  by (simp add: py_slice_to_def set_take_subset)

lemma length_py_slice_to: "0 \<le> n \<Longrightarrow> length (py_slice_to n xs) \<le> nat n"
  by (simp add: py_slice_to_def)

lemma filter_topic_member:
  assumes "ra \<in> set (filter_topic topics g)"
  shows "ra \<in> set (snd g)
         \<and> (\<exists>cfg. topics (fst g) = Some cfg \<and> min_quality_score cfg \<le> quality_score ra)"
proof (cases "topics (fst g)")
  case None
  with assms show ?thesis by (simp add: filter_topic_def)
next
  case (Some cfg)
  let ?kept = "sort_key (\<lambda>ra. - quality_score ra)
                 (filter (\<lambda>ra. min_quality_score cfg \<le> quality_score ra) (snd g))"
  from assms Some have "ra \<in> set (py_slice_to (max_articles_per_day cfg) ?kept)"
    by (simp add: filter_topic_def Let_def)
  then have "ra \<in> set ?kept" by (rule subsetD [OF set_py_slice_to])
  then have "ra \<in> set (snd g)" "min_quality_score cfg \<le> quality_score ra" by simp_all
  with Some show ?thesis by simp
qed

lemma filter_topic_length:
  assumes "topics (fst g) = Some cfg" and "0 \<le> max_articles_per_day cfg"
  shows "length (filter_topic topics g) \<le> nat (max_articles_per_day cfg)"
  using assms by (simp add: filter_topic_def Let_def length_py_slice_to)

lemma filter_none:
  "(\<And>x. x \<in> set xs \<Longrightarrow> \<not> P x) \<Longrightarrow> filter P xs = []"
  by (induction xs) simp_all

lemma other_topic_empty:
  assumes "\<forall>ra \<in> set (snd g). topic (article ra) = fst g" and "fst g \<noteq> T"
  shows "filter (\<lambda>ra. topic (article ra) = T) (filter_topic topics g) = []"
proof (rule filter_none)
  fix x assume "x \<in> set (filter_topic topics g)"
  then have "x \<in> set (snd g)" using filter_topic_member by simp
  with assms show "topic (article x) \<noteq> T" by simp
qed

lemma absent_topic_empty:
  assumes "well_grouped groups" and "T \<notin> set (map fst groups)"
  shows "filter (\<lambda>ra. topic (article ra) = T) (concat (map (filter_topic topics) groups)) = []"
  using assms
proof (induction groups)
  case Nil
  show ?case by simp
next
  case (Cons g groups)
  from Cons.prems have wg: "well_grouped groups" and nt: "T \<notin> set (map fst groups)"
    and ne: "fst g \<noteq> T" and mem: "\<forall>ra \<in> set (snd g). topic (article ra) = fst g"
    by (auto simp: well_grouped_def)
  from other_topic_empty [OF mem ne]
  have "filter (\<lambda>ra. topic (article ra) = T) (filter_topic topics g) = []" .
  moreover from Cons.IH [OF wg nt]
  have "filter (\<lambda>ra. topic (article ra) = T) (concat (map (filter_topic topics) groups)) = []" .
  ultimately show ?case by simp
qed

lemma topic_cap_groups:
  assumes "well_grouped groups" and "topics T = Some cfg" and "0 \<le> max_articles_per_day cfg"
  shows "length (filter (\<lambda>ra. topic (article ra) = T)
           (concat (map (filter_topic topics) groups))) \<le> nat (max_articles_per_day cfg)"
  using assms(1)
proof (induction groups)
  case Nil
  show ?case by simp
next
  case (Cons g groups)
  let ?P = "\<lambda>ra. topic (article ra) = T"
  from Cons.prems have wg: "well_grouped groups"
    and mem: "\<forall>ra \<in> set (snd g). topic (article ra) = fst g"
    and dist: "fst g \<notin> set (map fst groups)"
    by (auto simp: well_grouped_def)
  have split: "length (filter ?P (concat (map (filter_topic topics) (g # groups))))
      = length (filter ?P (filter_topic topics g))
        + length (filter ?P (concat (map (filter_topic topics) groups)))"
    by simp
  show ?case
  proof (cases "fst g = T")
    case True
    with dist have "T \<notin> set (map fst groups)" by simp
    from absent_topic_empty [OF wg this]
    have rest: "filter ?P (concat (map (filter_topic topics) groups)) = []" .
    from True assms(2) have "topics (fst g) = Some cfg" by simp
    from filter_topic_length [where topics = topics and g = g and cfg = cfg, OF this assms(3)]
    have "length (filter_topic topics g) \<le> nat (max_articles_per_day cfg)" .
    moreover have "length (filter ?P (filter_topic topics g)) \<le> length (filter_topic topics g)"
      by (rule length_filter_le)
    ultimately have "length (filter ?P (filter_topic topics g)) \<le> nat (max_articles_per_day cfg)"
      by (rule order_trans [rotated])
    then show ?thesis unfolding split rest by simp
  next
    case False
    from other_topic_empty [OF mem False]
    have here: "filter ?P (filter_topic topics g) = []" .
    from Cons.IH [OF wg] show ?thesis unfolding split here by simp
  qed
qed

lemma rank_and_filter_groups:
  "rank_and_filter topics clock X
     = concat (map (filter_topic topics) (group_by_topic (score_all topics clock 0 X)))"
  by (cases X) (simp_all add: rank_and_filter_def group_by_topic_def)

text \<open>
  Claim C6, as amended. For every input list \<open>X\<close>, every clock and every topic \<open>T\<close> that
  has a \<open>TopicConfig\<close> whose \<open>max_articles_per_day\<close> is not negative, the number of
  articles of topic \<open>T\<close> in \<open>rank_and_filter(X)\<close> is at most \<open>max_articles_per_day\<close>.
  Whatever the configuration, every retained article has a configured topic and scores
  at least the \<open>min_quality_score\<close> of that topic, and the articles of a topic without
  \<open>TopicConfig\<close> contribute nothing to the output.
\<close>

theorem ranker_cap:
  "(topics T = Some cfg \<and> 0 \<le> max_articles_per_day cfg
      \<longrightarrow> int (length (filter (\<lambda>ra. topic (article ra) = T)
                          (rank_and_filter topics clock X)))
            \<le> max_articles_per_day cfg)
   \<and> (\<forall>ra \<in> set (rank_and_filter topics clock X).
         \<exists>c. topics (topic (article ra)) = Some c
             \<and> min_quality_score c \<le> quality_score ra)
   \<and> (topics T = None
      \<longrightarrow> filter (\<lambda>ra. topic (article ra) = T) (rank_and_filter topics clock X) = [])"
proof (intro conjI impI ballI)
  let ?groups = "group_by_topic (score_all topics clock 0 X)"
  have wg: "well_grouped ?groups" by (rule well_grouped_group_by_topic)
  {
    assume "topics T = Some cfg \<and> 0 \<le> max_articles_per_day cfg"
    then have cfg: "topics T = Some cfg" and nn: "0 \<le> max_articles_per_day cfg" by simp_all
    from topic_cap_groups [where topics = topics and T = T and cfg = cfg, OF wg cfg nn]
    have "length (filter (\<lambda>ra. topic (article ra) = T)
            (rank_and_filter topics clock X)) \<le> nat (max_articles_per_day cfg)"
      by (simp only: rank_and_filter_groups)
    with nn show "int (length (filter (\<lambda>ra. topic (article ra) = T)
            (rank_and_filter topics clock X))) \<le> max_articles_per_day cfg"
      by linarith
  }
  have kept: "\<exists>c. topics (topic (article ra)) = Some c \<and> min_quality_score c \<le> quality_score ra"
    if "ra \<in> set (rank_and_filter topics clock X)" for ra
  proof -
    from that obtain g where g: "g \<in> set ?groups" and ra: "ra \<in> set (filter_topic topics g)"
      unfolding rank_and_filter_groups by auto
    from filter_topic_member [OF ra] obtain c where
      mem: "ra \<in> set (snd g)" and c: "topics (fst g) = Some c"
      and sc: "min_quality_score c \<le> quality_score ra"
      by blast
    from wg g mem have "topic (article ra) = fst g" by (simp add: well_grouped_def)
    with c sc show ?thesis by simp
  qed
  {
    fix ra assume "ra \<in> set (rank_and_filter topics clock X)"
    then show "\<exists>c. topics (topic (article ra)) = Some c
             \<and> min_quality_score c \<le> quality_score ra"
      by (rule kept)
  }
  {
    assume none: "topics T = None"
    show "filter (\<lambda>ra. topic (article ra) = T) (rank_and_filter topics clock X) = []"
    proof (rule filter_none)
      fix x assume "x \<in> set (rank_and_filter topics clock X)"
      from kept [OF this] none show "topic (article x) \<noteq> T" by auto
    qed
  }
qed

text \<open>
  Topic "ai" with minimum score 0.4 and cap 1, two articles of topic "ai" and one of the
  unconfigured topic "misc".
\<close>

theorem ranker_cap_witness:
  "[''ai'' \<mapsto> mk_topic (2 / 5) 1] ''ai'' = Some (mk_topic (2 / 5) 1)
   \<and> 0 \<le> max_articles_per_day (mk_topic (2 / 5) 1)
   \<and> int (length (filter (\<lambda>ra. topic (article ra) = ''ai'')
        (rank_and_filter [''ai'' \<mapsto> mk_topic (2 / 5) 1] (\<lambda>i. hours 1)
          [mk_article ''https://a.example/1'' ''GPT-5 out'' 0,
           mk_article ''https://b.example/2'' ''Robots at work'' 0,
           (mk_article ''https://c.example/3'' ''Chips launch'' 0)\<lparr>topic := ''misc''\<rparr>])))
       \<le> max_articles_per_day (mk_topic (2 / 5) 1)
   \<and> [''ai'' \<mapsto> mk_topic (2 / 5) 1] ''misc'' = None
   \<and> filter (\<lambda>ra. topic (article ra) = ''misc'')
        (rank_and_filter [''ai'' \<mapsto> mk_topic (2 / 5) 1] (\<lambda>i. hours 1)
          [mk_article ''https://a.example/1'' ''GPT-5 out'' 0,
           mk_article ''https://b.example/2'' ''Robots at work'' 0,
           (mk_article ''https://c.example/3'' ''Chips launch'' 0)\<lparr>topic := ''misc''\<rparr>])
       = []"
proof -
  let ?topics = "[''ai'' \<mapsto> mk_topic (2 / 5) 1]"
  let ?X = "[mk_article ''https://a.example/1'' ''GPT-5 out'' 0,
           mk_article ''https://b.example/2'' ''Robots at work'' 0,
           (mk_article ''https://c.example/3'' ''Chips launch'' 0)\<lparr>topic := ''misc''\<rparr>]"
  have cfg: "?topics ''ai'' = Some (mk_topic (2 / 5) 1)" by simp
  have nn: "0 \<le> max_articles_per_day (mk_topic (2 / 5) 1)" by (simp add: mk_topic_def)
  have none: "?topics ''misc'' = None" by simp
  note ai = ranker_cap [where topics = ?topics and T = "''ai''" and cfg = "mk_topic (2 / 5) 1"
      and clock = "\<lambda>i. hours 1" and X = ?X]
  note misc = ranker_cap [where topics = ?topics and T = "''misc''"
      and cfg = "mk_topic (2 / 5) 1" and clock = "\<lambda>i. hours 1" and X = ?X]
  from ai cfg nn have cap: "int (length (filter (\<lambda>ra. topic (article ra) = ''ai'')
        (rank_and_filter ?topics (\<lambda>i. hours 1) ?X))) \<le> max_articles_per_day (mk_topic (2 / 5) 1)"
    by (elim conjE) (rule mp, assumption, rule conjI)
  from misc none have empty: "filter (\<lambda>ra. topic (article ra) = ''misc'')
        (rank_and_filter ?topics (\<lambda>i. hours 1) ?X) = []"
    by (elim conjE) (rule mp)
  from cfg nn cap none empty show ?thesis by (intro conjI)
qed

lemma rank_values:
  "calculate_score [''ai'' \<mapsto> mk_topic m n] (hours 1) (mk_article u t 0) = 454 / 1000"
  by (simp add: calculate_score_def score_content_depth_def score_recency_def
      score_source_trust_def py_round_digits_def py_round_def hours_def mk_article_def
      mk_topic_def CONTENT_WEIGHT_def RECENCY_WEIGHT_def SOURCE_WEIGHT_def Let_def)

text \<open>
  The claim as stated, for every topic that has a \<open>TopicConfig\<close>, fails for a negative
  \<open>max_articles_per_day\<close>, which the configuration loader accepts: the slice
  \<open>topic_articles[:max_articles]\<close> then drops articles from the end. With
  \<open>max_articles_per_day = -1\<close> and three articles of the topic, two are retained.
\<close>

theorem ranker_cap_counterexample:
  "[''ai'' \<mapsto> mk_topic 0 (- 1)] ''ai'' = Some (mk_topic 0 (- 1))
   \<and> max_articles_per_day (mk_topic 0 (- 1)) = - 1
   \<and> rank_and_filter [''ai'' \<mapsto> mk_topic 0 (- 1)] (\<lambda>i. hours 1)
        [mk_article ''https://a.example/1'' ''GPT-5 out'' 0,
         mk_article ''https://b.example/2'' ''Robots at work'' 0,
         mk_article ''https://c.example/3'' ''Chips launch'' 0]
      = [\<lparr>article = mk_article ''https://a.example/1'' ''GPT-5 out'' 0,
           quality_score = 454 / 1000\<rparr>,
         \<lparr>article = mk_article ''https://b.example/2'' ''Robots at work'' 0,
           quality_score = 454 / 1000\<rparr>]
   \<and> length (filter (\<lambda>ra. topic (article ra) = ''ai'')
        (rank_and_filter [''ai'' \<mapsto> mk_topic 0 (- 1)] (\<lambda>i. hours 1)
          [mk_article ''https://a.example/1'' ''GPT-5 out'' 0,
           mk_article ''https://b.example/2'' ''Robots at work'' 0,
           mk_article ''https://c.example/3'' ''Chips launch'' 0])) = 2"
proof -
  have r: "rank_and_filter [''ai'' \<mapsto> mk_topic 0 (- 1)] (\<lambda>i. hours 1)
        [mk_article ''https://a.example/1'' ''GPT-5 out'' 0,
         mk_article ''https://b.example/2'' ''Robots at work'' 0,
         mk_article ''https://c.example/3'' ''Chips launch'' 0]
      = [\<lparr>article = mk_article ''https://a.example/1'' ''GPT-5 out'' 0,
           quality_score = 454 / 1000\<rparr>,
         \<lparr>article = mk_article ''https://b.example/2'' ''Robots at work'' 0,
           quality_score = 454 / 1000\<rparr>]"
    by (simp add: rank_and_filter_def rank_values group_by_topic_def filter_topic_def
        py_slice_to_def Let_def)
      (simp add: mk_article_def mk_topic_def)
  show ?thesis unfolding r by (simp add: mk_article_def mk_topic_def)
qed

end
